theory Spec2Isabelle
  imports Main
begin

section \<open>The economic update job\<close>

text \<open>
  \<^verbatim>\<open>server.js\<close> requires \<^verbatim>\<open>./src/infrastructure/jobs/economic-update-job\<close>, constructs one
  \<^verbatim>\<open>EconomicUpdateJob\<close> and calls its \<^verbatim>\<open>start()\<close>, \<^verbatim>\<open>stop()\<close>, \<^verbatim>\<open>getStatus()\<close> and
  \<^verbatim>\<open>executeManual()\<close>. That module is described by sections 3 to 7 of the specification;
  the definitions of this section follow those sections. The definitions of the section
  on \<^verbatim>\<open>server.js\<close> follow the source file.
\<close>

subsection \<open>Data model (specification, section 3)\<close>

text \<open>
  Modelled from the spec: the JobStatus of the missing EconomicUpdateJob (section 3).
  Timestamps are natural numbers (a clock reading); a nullable field is an option.
\<close>

datatype job_state = STOPPED | IDLE | RUNNING

datatype run_outcome = SUCCESS | PARTIAL_FAILURE | FAILURE

record job_status =
  state :: job_state
  lastRunStartedAt :: "nat option"
  lastRunFinishedAt :: "nat option"
  lastRunOutcome :: "run_outcome option"
  lastRunProcessedCount :: nat
  lastRunFailedCount :: nat
  nextScheduledAt :: "nat option"
  scheduleExpression :: string

text \<open>
  Modelled from the spec: the RunResult of the missing Batch Executor and its
  FailureDetail (section 3).
\<close>

record failure_detail =
  stateId :: nat
  reason :: string

record run_result =
  startedAt :: nat
  finishedAt :: nat
  processedCount :: nat
  failedCount :: nat
  failures :: "failure_detail list"

text \<open>
  Modelled from the spec: the SimulatedState the State Repository owns (section 3), a
  simulated country: its identifier and its economic attributes (kept abstract).
\<close>

record simulated_state =
  ident :: nat
  attributes :: int

subsection \<open>Batch executor (specification, section 4.2)\<close>

text \<open>
  Modelled from the spec: what the collaborators of the missing Batch Executor do
  during one pass. \<open>listEligibleStates\<close> and \<open>persist\<close>
  are the State Repository boundary of section 6 (\<open>Inl r\<close> and \<open>Some r\<close> are a
  RepositoryError with reason \<open>r\<close>); \<open>recompute\<close> is the economic recomputation, which the
  specification leaves open and which may fail on a state. \<open>deadline\<close> stands for the
  per-pass timeout: \<open>Some n\<close> when the timeout expires after \<open>n\<close> states have been handled,
  \<open>None\<close> when the pass is not timed out. \<open>clock_start\<close> and \<open>clock_end\<close> are the clock
  readings at the start and at the end of the pass.
\<close>

record pass_env =
  listEligibleStates :: "string + simulated_state list"
  recompute :: "simulated_state \<Rightarrow> string + simulated_state"
  persist :: "simulated_state \<Rightarrow> string option"
  deadline :: "nat option"
  clock_start :: nat
  clock_end :: nat

text \<open>
  Modelled from the spec: the running totals of a pass of the missing Batch Executor,
  and the writes committed to the repository so far, in order.
\<close>

record pass_acc =
  acc_processed :: nat
  acc_failed :: nat
  acc_failures :: "failure_detail list"
  acc_writes :: "simulated_state list"

definition empty_acc :: pass_acc where
  "empty_acc = \<lparr>acc_processed = 0, acc_failed = 0, acc_failures = [], acc_writes = []\<rparr>"

text \<open>
  Modelled from the spec: the per-state step of the missing Batch Executor (section 4.2,
  "For each state, independently: recompute economic attributes, persist the update"),
  as the tagged result of section 9: \<open>Inr s'\<close> is the state written, \<open>Inl r\<close> the reason of an
  ItemRecomputeError or ItemPersistError.
\<close>

definition process_state :: "pass_env \<Rightarrow> simulated_state \<Rightarrow> string + simulated_state" where
  "process_state env s =
     (case recompute env s of
        Inl r \<Rightarrow> Inl r
      | Inr s' \<Rightarrow> (case persist env s' of Some r \<Rightarrow> Inl r | None \<Rightarrow> Inr s'))"

text \<open>
  Modelled from the spec: how the missing Batch Executor aggregates one state's tagged
  result (section 4.2, "A failure on one state is caught, recorded as a FailureDetail, and
  processing continues with the next state").
\<close>

definition record_item :: "simulated_state \<Rightarrow> string + simulated_state \<Rightarrow> pass_acc \<Rightarrow> pass_acc" where
  "record_item s res acc =
     (case res of
        Inl r \<Rightarrow> acc\<lparr>acc_failed := acc_failed acc + 1,
                      acc_failures := acc_failures acc @ [\<lparr>stateId = ident s, reason = r\<rparr>]\<rparr>
      | Inr s' \<Rightarrow> acc\<lparr>acc_processed := acc_processed acc + 1,
                       acc_writes := acc_writes acc @ [s']\<rparr>)"

text \<open>
  Modelled from the spec: what the missing Batch Executor records for the states its
  timeout abandons (section 7, "PassTimeout (remaining items abandoned, partial
  RunResult returned)"). Sections 3 and 8 require processedCount + failedCount to be the
  number of states fetched for every RunResult, so each abandoned state is counted as
  failed, with a FailureDetail whose reason is the timeout; nothing is written for it.
\<close>

definition timeout_detail :: "simulated_state \<Rightarrow> failure_detail" where
  "timeout_detail s = \<lparr>stateId = ident s, reason = ''PassTimeout''\<rparr>"

definition abandon :: "simulated_state list \<Rightarrow> pass_acc \<Rightarrow> pass_acc" where
  "abandon remaining acc =
     acc\<lparr>acc_failed := acc_failed acc + length remaining,
         acc_failures := acc_failures acc @ map timeout_detail remaining\<rparr>"

text \<open>
  Modelled from the spec: the loop of the missing Batch Executor over the fetched states,
  in fetch order (section 4.2). The second argument is what is left of the pass timeout,
  counted in states; when it is used up and states remain, the remaining states are
  abandoned and the writes already made stay ("A configurable per-pass timeout aborts
  remaining unprocessed states; already-processed states' writes are not rolled back").
  The result says whether the timeout cut the pass short.
\<close>

fun process_states :: "pass_env \<Rightarrow> nat option \<Rightarrow> simulated_state list \<Rightarrow> pass_acc \<Rightarrow> bool \<times> pass_acc" where
  "process_states env left [] acc = (False, acc)"
| "process_states env left (s # rest) acc =
     (if left = Some 0 then (True, abandon (s # rest) acc)
      else process_states env (map_option (\<lambda>n. n - 1) left) rest
             (record_item s (process_state env s) acc))"

text \<open>
  Modelled from the spec: what a pass of the missing Batch Executor returns (section 7):
  a RunResult; a partial RunResult after a PassTimeout; or a RepositoryFetchError with
  its reason. The RunResult takes its counts and its failure details from the totals.
\<close>

datatype pass_outcome =
  Completed run_result
| TimedOut run_result
| FetchFailed string

definition result_of_acc :: "pass_env \<Rightarrow> pass_acc \<Rightarrow> run_result" where
  "result_of_acc env acc =
     \<lparr>startedAt = clock_start env, finishedAt = clock_end env,
      processedCount = acc_processed acc, failedCount = acc_failed acc,
      failures = acc_failures acc\<rparr>"

text \<open>
  Modelled from the spec: one pass of the missing Batch Executor (section 4.2). The
  second component is the sequence of writes the pass committed to the repository.
\<close>

definition run_pass :: "pass_env \<Rightarrow> pass_outcome \<times> simulated_state list" where
  "run_pass env =
     (case listEligibleStates env of
        Inl r \<Rightarrow> (FetchFailed r, [])
      | Inr fetched \<Rightarrow>
          (case process_states env (deadline env) fetched empty_acc of
             (expired, acc) \<Rightarrow>
               ((if expired then TimedOut (result_of_acc env acc)
                 else Completed (result_of_acc env acc)),
                acc_writes acc)))"

text \<open>
  Modelled from the spec: the RunResult of a pass of the missing Batch Executor, when it
  has one (section 7: a failed fetch has none).
\<close>

fun run_result_of :: "pass_outcome \<Rightarrow> run_result option" where
  "run_result_of (Completed r) = Some r"
| "run_result_of (TimedOut r) = Some r"
| "run_result_of (FetchFailed e) = None"

subsection \<open>Job controller (specification, section 4.1)\<close>

text \<open>
  Modelled from the spec: the errors \<open>executeManual()\<close> of the missing EconomicUpdateJob
  fails with (sections 4.1 and 7; NotInitialized is also called Stopped there), and the
  lines it logs.
\<close>

datatype job_error = AlreadyRunning | NotInitialized | FetchError string

datatype log_entry =
  StartIgnored
| TickDropped
| PassFailed string
| PassTimeout
| PassFinished

text \<open>
  Modelled from the spec: the state of the missing EconomicUpdateJob (section 4.1). The
  controller owns the current JobStatus snapshot. \<open>stopRequested\<close> records a
  \<open>stop()\<close> that arrived during a pass and takes effect when the pass exits.
\<close>

record controller =
  status :: job_status
  stopRequested :: bool
  logged :: "log_entry list"

text \<open>
  Modelled from the spec: the constructor of the missing EconomicUpdateJob. A controller
  that was never started is STOPPED and has run no pass. The schedule expression is the
  constant \<^verbatim>\<open>ECONOMIC_CONSTANTS.JOB_SCHEDULE\<close>, a parameter here.
\<close>

definition new_job :: "string \<Rightarrow> controller" where
  "new_job schedule =
     \<lparr>status = \<lparr>state = STOPPED, lastRunStartedAt = None, lastRunFinishedAt = None,
                 lastRunOutcome = None, lastRunProcessedCount = 0, lastRunFailedCount = 0,
                 nextScheduledAt = None, scheduleExpression = schedule\<rparr>,
      stopRequested = False, logged = []\<rparr>"

text \<open>
  Modelled from the spec: \<open>getStatus()\<close> of the missing EconomicUpdateJob (section 4.1,
  "returns the current immutable JobStatus snapshot. Never blocks, never fails").
\<close>

definition getStatus :: "controller \<Rightarrow> job_status" where
  "getStatus c = status c"

text \<open>
  Modelled from the spec: \<open>start()\<close> of the missing EconomicUpdateJob (section 4.1).
  \<open>next_fire\<close> is the next fire time the Schedule Provider computes.
\<close>

definition start :: "nat \<Rightarrow> controller \<Rightarrow> controller" where
  "start next_fire c =
     (if state (status c) = STOPPED
      then c\<lparr>status := (status c)\<lparr>state := IDLE, nextScheduledAt := Some next_fire\<rparr>\<rparr>
      else c\<lparr>logged := logged c @ [StartIgnored]\<rparr>)"

text \<open>
  Modelled from the spec: \<open>stop()\<close> of the missing EconomicUpdateJob (section 4.1:
  "disarms the trigger, transitions to STOPPED, clears nextScheduledAt. Does not abort an
  in-flight pass", and "RUNNING never transitions directly to STOPPED; stop() only takes
  effect once the current pass exits").
\<close>

definition stop :: "controller \<Rightarrow> controller" where
  "stop c =
     (if state (status c) = RUNNING
      then c\<lparr>status := (status c)\<lparr>nextScheduledAt := None\<rparr>, stopRequested := True\<rparr>
      else c\<lparr>status := (status c)\<lparr>state := STOPPED, nextScheduledAt := None\<rparr>\<rparr>)"

text \<open>
  Modelled from the spec: admission of the missing EconomicUpdateJob, the check and the
  transition IDLE to RUNNING in one step (sections 4.1 and 5). The start timestamp is
  set with the state, so that no snapshot is RUNNING without it.
\<close>

definition admit :: "nat \<Rightarrow> controller \<Rightarrow> job_error + controller" where
  "admit now c =
     (if state (status c) = RUNNING then Inl AlreadyRunning
      else if state (status c) = STOPPED then Inl NotInitialized
      else Inr (c\<lparr>status := (status c)\<lparr>state := RUNNING, lastRunStartedAt := Some now\<rparr>\<rparr>))"

text \<open>
  Modelled from the spec: the lastRunOutcome the missing EconomicUpdateJob records for a
  pass (section 3: FAILURE for a pass that fails at the fetch; section 4.2: a pass that
  returns a RunResult is not a pass-level failure), and the line it logs.
\<close>

fun outcome_of :: "pass_outcome \<Rightarrow> run_outcome" where
  "outcome_of (Completed r) = (if failedCount r = 0 then SUCCESS else PARTIAL_FAILURE)"
| "outcome_of (TimedOut r) = PARTIAL_FAILURE"
| "outcome_of (FetchFailed e) = FAILURE"

fun log_of :: "pass_outcome \<Rightarrow> log_entry" where
  "log_of (Completed r) = PassFinished"
| "log_of (TimedOut r) = PassTimeout"
| "log_of (FetchFailed e) = PassFailed e"

text \<open>
  Modelled from the spec: how the missing EconomicUpdateJob folds the outcome of the pass
  that exits into the next JobStatus (sections 3 and 4.1). The controller goes back to
  IDLE, or to STOPPED when a \<open>stop()\<close> arrived during the pass.
\<close>

definition finish_pass :: "pass_env \<Rightarrow> pass_outcome \<Rightarrow> controller \<Rightarrow> controller" where
  "finish_pass env out c =
     c\<lparr>status := (status c)
         \<lparr>state := (if stopRequested c then STOPPED else IDLE),
          lastRunFinishedAt := Some (clock_end env),
          lastRunOutcome := Some (outcome_of out),
          lastRunProcessedCount := (case run_result_of out of Some r \<Rightarrow> processedCount r | None \<Rightarrow> 0),
          lastRunFailedCount := (case run_result_of out of Some r \<Rightarrow> failedCount r | None \<Rightarrow> 0)\<rparr>,
       stopRequested := False,
       logged := logged c @ [log_of out]\<rparr>"

text \<open>
  Modelled from the spec: the pass of an admitted controller of the missing
  EconomicUpdateJob runs the Batch Executor and exits (section 4.1).
\<close>

definition complete :: "pass_env \<Rightarrow> controller \<Rightarrow> pass_outcome \<times> controller" where
  "complete env c = (fst (run_pass env), finish_pass env (fst (run_pass env)) c)"

text \<open>
  Modelled from the spec: what the caller of \<open>executeManual()\<close> of the missing
  EconomicUpdateJob gets from the pass it started (section 4.1: the RunResult; section
  6: a failure is an error with a message).
\<close>

fun manual_result :: "pass_outcome \<Rightarrow> job_error + run_result" where
  "manual_result (Completed r) = Inr r"
| "manual_result (TimedOut r) = Inr r"
| "manual_result (FetchFailed e) = Inl (FetchError e)"

text \<open>
  Modelled from the spec: \<open>executeManual()\<close> of the missing EconomicUpdateJob (section
  4.1), from the call to the result its caller awaits.
\<close>

definition executeManual :: "nat \<Rightarrow> pass_env \<Rightarrow> controller \<Rightarrow> (job_error + run_result) \<times> controller" where
  "executeManual now env c =
     (case admit now c of
        Inl e \<Rightarrow> (Inl e, c)
      | Inr c1 \<Rightarrow> (case complete env c1 of (out, c2) \<Rightarrow> (manual_result out, c2)))"

text \<open>
  Modelled from the spec: the scheduled tick handler of the missing EconomicUpdateJob
  (section 4.1): a tick that finds a pass RUNNING is dropped and logged; otherwise the
  admission path is that of \<open>executeManual()\<close>.
\<close>

definition tick_admit :: "nat \<Rightarrow> controller \<Rightarrow> job_error + controller" where
  "tick_admit now c =
     (if state (status c) = RUNNING then Inl AlreadyRunning else admit now c)"

definition tick_rejected :: "job_error \<Rightarrow> controller \<Rightarrow> controller" where
  "tick_rejected e c = (if e = AlreadyRunning then c\<lparr>logged := logged c @ [TickDropped]\<rparr> else c)"

definition tick :: "nat \<Rightarrow> pass_env \<Rightarrow> controller \<Rightarrow> controller" where
  "tick now env c =
     (case tick_admit now c of
        Inl e \<Rightarrow> tick_rejected e c
      | Inr c1 \<Rightarrow> snd (complete env c1))"

subsection \<open>Interleavings of the controller's operations\<close>

text \<open>
  Modelled from the spec: the operations of the missing EconomicUpdateJob as events
  (section 5). A pass begins at an admission and ends at
  \<open>PassExits\<close>; between the two, other events may occur (the caller of \<open>executeManual()\<close>
  and the tick handler await the pass). \<open>passes_running\<close> counts the passes that have begun
  and not yet exited; the controller does not read it.
\<close>

datatype event =
  StartCalled nat
| StopCalled
| TickFires nat
| ManualCalled nat
| PassExits pass_env

record job_system =
  ctl :: controller
  passes_running :: nat

fun step :: "event \<Rightarrow> job_system \<Rightarrow> job_system" where
  "step (StartCalled next_fire) s = s\<lparr>ctl := start next_fire (ctl s)\<rparr>"
| "step StopCalled s = s\<lparr>ctl := stop (ctl s)\<rparr>"
| "step (TickFires now) s =
     (case tick_admit now (ctl s) of
        Inl e \<Rightarrow> s\<lparr>ctl := tick_rejected e (ctl s)\<rparr>
      | Inr c \<Rightarrow> \<lparr>ctl = c, passes_running = passes_running s + 1\<rparr>)"
| "step (ManualCalled now) s =
     (case admit now (ctl s) of
        Inl e \<Rightarrow> s
      | Inr c \<Rightarrow> \<lparr>ctl = c, passes_running = passes_running s + 1\<rparr>)"
| "step (PassExits env) s =
     (if passes_running s = 0 then s
      else \<lparr>ctl = snd (complete env (ctl s)), passes_running = passes_running s - 1\<rparr>)"

fun run_events :: "event list \<Rightarrow> job_system \<Rightarrow> job_system" where
  "run_events [] s = s"
| "run_events (e # es) s = run_events es (step e s)"

definition fresh_system :: "string \<Rightarrow> job_system" where
  "fresh_system schedule = \<lparr>ctl = new_job schedule, passes_running = 0\<rparr>"

section \<open>server.js\<close>

subsection \<open>Responses\<close>

text \<open>
  The values \<^verbatim>\<open>res.json\<close> is given: an object is the list of its properties in the order
  of the source. \<open>JErrorMessage e\<close> is the \<^verbatim>\<open>message\<close> of the error \<open>e\<close> thrown by the job.
\<close>

datatype json =
  JBool bool
| JString string
| JTimestamp nat
| JStatus job_status
| JResult run_result
| JErrorMessage job_error

record response =
  status_code :: nat
  body :: "(string \<times> json) list"

text \<open>The bytes of the letters outside ASCII in the messages (UTF-8).\<close>

definition a_acute :: string where
  "a_acute = [CHR 0xC3, CHR 0xA1]"

definition a_tilde :: string where
  "a_tilde = [CHR 0xC3, CHR 0xA3]"

definition o_circumflex :: string where
  "o_circumflex = [CHR 0xC3, CHR 0xB4]"

definition job_not_initialized :: string where
  "job_not_initialized = ''Job econ'' @ o_circumflex @ ''mica n'' @ a_tilde @ ''o inicializada''"

text \<open>\<^verbatim>\<open>process.env.NODE_ENV || 'development'\<close>: an unset or empty variable is falsy.\<close>

definition environment_name :: "string option \<Rightarrow> string" where
  "environment_name node_env =
     (case node_env of
        None \<Rightarrow> ''development''
      | Some e \<Rightarrow> (if e = [] then ''development'' else e))"

subsection \<open>Route handlers\<close>

text \<open>
  \<open>job\<close> is the module variable \<^verbatim>\<open>economicJob\<close> (\<open>None\<close> for \<^verbatim>\<open>null\<close>), \<open>now\<close> the clock read by
  \<^verbatim>\<open>new Date()\<close>. \<^verbatim>\<open>res.json\<close> without \<^verbatim>\<open>res.status\<close> answers 200.
\<close>

definition health_route :: "string option \<Rightarrow> controller option \<Rightarrow> nat \<Rightarrow> response" where
  "health_route node_env job now =
     \<lparr>status_code = 200,
      body =
        [(''success'', JBool True),
         (''message'', JString (''SimNations Backend est'' @ a_acute @ '' funcionando!'')),
         (''timestamp'', JTimestamp now),
         (''environment'', JString (environment_name node_env)),
         (''economic_job_status'',
            (case job of Some j \<Rightarrow> JStatus (getStatus j) | None \<Rightarrow> JString ''not_initialized''))]\<rparr>"

definition status_route :: "controller option \<Rightarrow> nat \<Rightarrow> response" where
  "status_route job now =
     (case job of
        None \<Rightarrow>
          \<lparr>status_code = 503,
           body = [(''success'', JBool False), (''message'', JString job_not_initialized)]\<rparr>
      | Some j \<Rightarrow>
          \<lparr>status_code = 200,
           body = [(''success'', JBool True), (''data'', JStatus (getStatus j)),
                   (''timestamp'', JTimestamp now)]\<rparr>)"

text \<open>
  The handler of \<^verbatim>\<open>POST /admin/economic-job/execute\<close>, from the request to the response it
  sends once \<^verbatim>\<open>executeManual()\<close> has settled. It returns the response and the controller
  as the call leaves it.
\<close>

definition execute_route :: "controller option \<Rightarrow> nat \<Rightarrow> pass_env \<Rightarrow> response \<times> controller option" where
  "execute_route job now env =
     (case job of
        None \<Rightarrow>
          (\<lparr>status_code = 503,
            body = [(''success'', JBool False), (''message'', JString job_not_initialized)]\<rparr>,
           None)
      | Some j \<Rightarrow>
          (case executeManual now env j of
             (Inr result, j') \<Rightarrow>
               (\<lparr>status_code = 200,
                 body = [(''success'', JBool True), (''data'', JResult result),
                         (''timestamp'', JTimestamp now)]\<rparr>,
                Some j')
           | (Inl error, j') \<Rightarrow>
               (\<lparr>status_code = 500,
                 body = [(''success'', JBool False),
                         (''message'', JString ''Erro ao executar job manualmente''),
                         (''error'', JErrorMessage error)]\<rparr>,
                Some j')))"

definition not_found_route :: "nat \<Rightarrow> response" where
  "not_found_route now =
     \<lparr>status_code = 404,
      body = [(''success'', JBool False),
              (''message'', JString (''Rota n'' @ a_tilde @ ''o encontrada'')),
              (''timestamp'', JTimestamp now)]\<rparr>"

subsection \<open>Routing\<close>

datatype http_method = GET | HEAD | POST | OPTIONS | OTHER string

text \<open>
  A request: its method and path, and what the global middlewares find when it arrives.
  \<open>over_limit\<close>: the rate limiter has already counted its maximum of requests from this
  client in the current window. \<open>malformed_body\<close>: a body parser rejects the body.
\<close>

record request =
  req_method :: http_method
  req_path :: string
  over_limit :: bool
  malformed_body :: bool

text \<open>
  Express compares paths without regard to letter case and lets a route path be followed
  by one slash; a router mounted with \<^verbatim>\<open>app.use(prefix, router)\<close> sees the paths that are
  the prefix or continue it after a slash. A route registered with \<^verbatim>\<open>app.get\<close> also
  answers HEAD.
\<close>

definition lower :: "char \<Rightarrow> char" where
  "lower c =
     (case map_of (zip ''ABCDEFGHIJKLMNOPQRSTUVWXYZ'' ''abcdefghijklmnopqrstuvwxyz'') c of
        Some l \<Rightarrow> l
      | None \<Rightarrow> c)"

definition route_matches :: "string \<Rightarrow> string \<Rightarrow> bool" where
  "route_matches route path_of_request =
     (let p = map lower path_of_request; r = map lower route
      in p = r \<or> p = r @ ''/'')"

definition mounted_at :: "string \<Rightarrow> string \<Rightarrow> bool" where
  "mounted_at prefix path_of_request =
     (let p = map lower path_of_request; r = map lower prefix
      in p = r \<or> take (length r + 1) p = r @ ''/'')"

definition get_like :: "http_method \<Rightarrow> bool" where
  "get_like m = (m = GET \<or> m = HEAD)"

definition api_mounts :: "string list" where
  "api_mounts = [''/api/auth'', ''/api/user'', ''/api/quiz'', ''/api/state'', ''/api/events'']"

text \<open>
  The route table of \<^verbatim>\<open>server.js\<close> (lines 59 to 130) in the order of registration: what
  a request gets once the global middlewares have handed it on. \<open>node_env\<close> is
  \<^verbatim>\<open>process.env.NODE_ENV\<close> when the module was loaded. \<open>routers\<close> stands for the five
  routers under \<^verbatim>\<open>/api\<close> and the error middleware behind them, whose files are not part
  of the sources at hand: \<open>Some r\<close> when one of them answers \<open>r\<close>, \<open>None\<close> when the request
  falls through. They cannot reach \<^verbatim>\<open>economicJob\<close>, a variable of this module. The last
  entry is the \<^verbatim>\<open>'*'\<close> handler.
\<close>

definition route_table :: "string option \<Rightarrow> (request \<Rightarrow> response option) \<Rightarrow> controller option \<Rightarrow> nat \<Rightarrow>
    pass_env \<Rightarrow> request \<Rightarrow> response \<times> controller option" where
  "route_table node_env routers job now env req =
     (if get_like (req_method req) \<and> route_matches ''/health'' (req_path req)
      then (health_route node_env job now, job)
      else if get_like (req_method req) \<and> route_matches ''/admin/economic-job/status'' (req_path req)
      then (status_route job now, job)
      else if node_env = Some ''development'' \<and> req_method req = POST
              \<and> route_matches ''/admin/economic-job/execute'' (req_path req)
      then execute_route job now env
      else if list_ex (\<lambda>prefix. mounted_at prefix (req_path req)) api_mounts
      then (case routers req of Some r \<Rightarrow> (r, job) | None \<Rightarrow> (not_found_route now, job))
      else (not_found_route now, job))"

subsection \<open>Global middlewares and the application\<close>

text \<open>
  What \<^verbatim>\<open>server.js\<close> takes from files and moments outside it: the routers under \<^verbatim>\<open>/api\<close>
  (as for \<open>route_table\<close>), the response the error middleware sends for an error a
  body parser raises, and the clock when the module was loaded, which is the timestamp
  in the rate limiter's message (line 37).
\<close>

record site =
  api_routers :: "request \<Rightarrow> response option"
  errorMiddleware :: "request \<Rightarrow> response"
  loaded_at :: nat

text \<open>
  \<^verbatim>\<open>cors\<close> (line 43, with its default \<^verbatim>\<open>preflightContinue: false\<close>) ends every OPTIONS
  request itself, with status 204 and no body.
\<close>

definition cors_preflight :: response where
  "cors_preflight = \<lparr>status_code = 204, body = []\<rparr>"

text \<open>The rate limiter (lines 31 to 39, 47) answers 429 with its \<^verbatim>\<open>message\<close>.\<close>

definition too_many_requests :: "nat \<Rightarrow> response" where
  "too_many_requests loaded =
     \<lparr>status_code = 429,
      body = [(''success'', JBool False),
              (''message'', JString ''Muitas tentativas. Tente novamente em alguns minutos.''),
              (''timestamp'', JTimestamp loaded)]\<rparr>"

text \<open>
  The middlewares of lines 42 to 57 in the order of registration: \<^verbatim>\<open>helmet\<close> sets headers
  and goes on; \<^verbatim>\<open>cors\<close> answers OPTIONS; the limiter answers a client over its limit;
  the body parsers (\<^verbatim>\<open>express.json\<close>, \<^verbatim>\<open>express.urlencoded\<close>) pass the error of a body they
  reject to the error middleware, past every route; the request log goes on. \<open>Some r\<close>
  when one of them ends the request with \<open>r\<close>, \<open>None\<close> when the request is handed on to
  the routes.
\<close>

definition middlewares :: "site \<Rightarrow> request \<Rightarrow> response option" where
  "middlewares site req =
     (if req_method req = OPTIONS then Some cors_preflight
      else if over_limit req then Some (too_many_requests (loaded_at site))
      else if malformed_body req then Some (errorMiddleware site req)
      else None)"

text \<open>The application: the global middlewares, then the route table.\<close>

definition app :: "string option \<Rightarrow> site \<Rightarrow> controller option \<Rightarrow> nat \<Rightarrow> pass_env \<Rightarrow> request \<Rightarrow>
    response \<times> controller option" where
  "app node_env site job now env req =
     (case middlewares site req of
        Some r \<Rightarrow> (r, job)
      | None \<Rightarrow> route_table node_env (api_routers site) job now env req)"

subsection \<open>Process lifecycle\<close>

text \<open>
  The process as \<^verbatim>\<open>server.js\<close> sees it: the environment variable, the module variable
  \<^verbatim>\<open>economicJob\<close>, the exit code once \<^verbatim>\<open>process.exit\<close> has been called, and the calls made
  so far on the job, on \<^verbatim>\<open>app.listen\<close> and on \<^verbatim>\<open>process.exit\<close>, in order.
\<close>

datatype call = Construct | CallStart | CallStop | Listen | Exit int

record process =
  NODE_ENV :: "string option"
  economicJob :: "controller option"
  exit_code :: "int option"
  calls :: "call list"

text \<open>How \<^verbatim>\<open>await testConnection()\<close> settles: with true, with false, or rejected.\<close>

datatype connection = Connected | NotConnected | ConnectionThrew

definition loaded :: "string option \<Rightarrow> process" where
  "loaded node_env = \<lparr>NODE_ENV = node_env, economicJob = None, exit_code = None, calls = []\<rparr>"

definition process_exit :: "int \<Rightarrow> process \<Rightarrow> process" where
  "process_exit n p = p\<lparr>exit_code := Some n, calls := calls p @ [Exit n]\<rparr>"

text \<open>
  \<^verbatim>\<open>startServer\<close> from the point where \<^verbatim>\<open>testConnection()\<close> has settled. \<open>schedule\<close> is
  \<^verbatim>\<open>ECONOMIC_CONSTANTS.JOB_SCHEDULE\<close> and \<open>next_fire\<close> the next fire time of the schedule.
  A process that has exited runs nothing more.
\<close>

definition startServer :: "string \<Rightarrow> nat \<Rightarrow> connection \<Rightarrow> process \<Rightarrow> process" where
  "startServer schedule next_fire isConnected p =
     (if exit_code p \<noteq> None then p
      else (case isConnected of
              ConnectionThrew \<Rightarrow> process_exit 1 p
            | NotConnected \<Rightarrow> process_exit 1 p
            | Connected \<Rightarrow>
                (let p1 = (if NODE_ENV p \<noteq> Some ''test''
                           then p\<lparr>economicJob := Some (start next_fire (new_job schedule)),
                                  calls := calls p @ [Construct, CallStart]\<rparr>
                           else p)
                 in p1\<lparr>calls := calls p1 @ [Listen]\<rparr>)))"

text \<open>The handlers of SIGTERM and SIGINT; they differ in the line they log only.\<close>

datatype signal = SIGTERM | SIGINT

definition on_signal :: "signal \<Rightarrow> process \<Rightarrow> process" where
  "on_signal sig p =
     (if exit_code p \<noteq> None then p
      else process_exit 0
             (case economicJob p of
                Some j \<Rightarrow> p\<lparr>economicJob := Some (stop j), calls := calls p @ [CallStop]\<rparr>
              | None \<Rightarrow> p))"

text \<open>The handlers of \<^verbatim>\<open>uncaughtException\<close> and \<^verbatim>\<open>unhandledRejection\<close>.\<close>

definition on_uncaught :: "process \<Rightarrow> process" where
  "on_uncaught p = (if exit_code p \<noteq> None then p else process_exit 1 p)"

text \<open>
  A callback the runtime invokes for the job: an exception that leaves it reaches the
  handlers above; otherwise the process goes on with the controller the callback leaves.
\<close>

definition run_callback :: "(controller \<Rightarrow> job_error + controller) \<Rightarrow> process \<Rightarrow> process" where
  "run_callback cb p =
     (if exit_code p \<noteq> None then p
      else (case economicJob p of
              None \<Rightarrow> p
            | Some j \<Rightarrow>
                (case cb j of
                   Inl e \<Rightarrow> on_uncaught p
                 | Inr j' \<Rightarrow> p\<lparr>economicJob := Some j'\<rparr>)))"

text \<open>
  Modelled from the spec: the callback the missing EconomicUpdateJob gives to the schedule
  (section 4.1, the tick handler has no caller-facing result; section 7, pass-level
  errors are recorded in status and logged): no exception leaves it.
\<close>

definition scheduled_callback :: "nat \<Rightarrow> pass_env \<Rightarrow> controller \<Rightarrow> job_error + controller" where
  "scheduled_callback now env c = Inr (tick now env c)"

text \<open>A request served by the running process.\<close>

definition serve :: "site \<Rightarrow> nat \<Rightarrow> pass_env \<Rightarrow> request \<Rightarrow> process \<Rightarrow>
    response option \<times> process" where
  "serve site now env req p =
     (if exit_code p \<noteq> None then (None, p)
      else (case app (NODE_ENV p) site (economicJob p) now env req of
              (r, job) \<Rightarrow> (Some r, p\<lparr>economicJob := job\<rparr>)))"

text \<open>What happens to a running process on account of the job: ticks and requests.\<close>

datatype activity =
  Scheduled nat pass_env
| Requested request nat pass_env

fun act :: "site \<Rightarrow> activity \<Rightarrow> process \<Rightarrow> process" where
  "act site (Scheduled now env) p = run_callback (scheduled_callback now env) p"
| "act site (Requested req now env) p = snd (serve site now env req p)"


text \<open>
  Everything that happens to the process after \<^verbatim>\<open>startServer()\<close>, which the module calls
  once when it is loaded.
\<close>

datatype happening =
  Signal signal
| Uncaught
| Job activity

fun happen :: "site \<Rightarrow> happening \<Rightarrow> process \<Rightarrow> process" where
  "happen site (Signal sig) p = on_signal sig p"
| "happen site Uncaught p = on_uncaught p"
| "happen site (Job a) p = act site a p"

fun run_process :: "site \<Rightarrow> happening list \<Rightarrow> process \<Rightarrow> process" where
  "run_process site [] p = p"
| "run_process site (h # hs) p = run_process site hs (happen site h p)"

definition boot :: "string \<Rightarrow> nat \<Rightarrow> connection \<Rightarrow> string option \<Rightarrow> process" where
  "boot schedule next_fire isConnected node_env =
     startServer schedule next_fire isConnected (loaded node_env)"

section \<open>Notions used to state the properties\<close>

text \<open>The states a pass reaches before its timeout, of the states it fetched.\<close>

definition handled :: "nat option \<Rightarrow> simulated_state list \<Rightarrow> simulated_state list" where
  "handled left fetched = (case left of None \<Rightarrow> fetched | Some n \<Rightarrow> take n fetched)"





text \<open>The recomputed state of each state that does not fail, in order.\<close>

fun writes_of :: "pass_env \<Rightarrow> simulated_state list \<Rightarrow> simulated_state list" where
  "writes_of env [] = []"
| "writes_of env (s # rest) =
     (case process_state env s of
        Inl r \<Rightarrow> writes_of env rest
      | Inr s' \<Rightarrow> s' # writes_of env rest)"

text \<open>How often a call occurs in the calls of a process.\<close>

definition times_called :: "call \<Rightarrow> process \<Rightarrow> nat" where
  "times_called k p = length (filter (\<lambda>x. x = k) (calls p))"

text \<open>
  The count of running passes agrees with the controller: it is at most one, and it is
  one exactly when the controller is RUNNING.
\<close>

definition consistent :: "job_system \<Rightarrow> bool" where
  "consistent s \<longleftrightarrow>
     passes_running s \<le> 1 \<and> (passes_running s = 1 \<longleftrightarrow> state (getStatus (ctl s)) = RUNNING)"


text \<open>The property of a response body with a given name.\<close>

definition field :: "string \<Rightarrow> response \<Rightarrow> json option" where
  "field name r = map_of (body r) name"

text \<open>
  A request within the rate limit and with an acceptable body; the request for a manual
  run, which is one; and the response of the \<^verbatim>\<open>catch\<close> of the manual route.
\<close>

definition handed_on :: "http_method \<Rightarrow> string \<Rightarrow> request" where
  "handed_on m path_of_request =
     \<lparr>req_method = m, req_path = path_of_request, over_limit = False, malformed_body = False\<rparr>"

definition execute_request :: request where
  "execute_request = handed_on POST ''/admin/economic-job/execute''"

definition manual_failed :: "job_error \<Rightarrow> response" where
  "manual_failed e =
     \<lparr>status_code = 500,
      body = [(''success'', JBool False),
              (''message'', JString ''Erro ao executar job manualmente''),
              (''error'', JErrorMessage e)]\<rparr>"

subsection \<open>Concrete passes and controllers\<close>



definition five_states :: "simulated_state list" where
  "five_states = map (\<lambda>i. \<lparr>ident = i, attributes = 100\<rparr>) [1, 2, 3, 4, 5]"

text \<open>A pass over five states where the write of state 3 is refused.\<close>

definition third_fails :: "nat option \<Rightarrow> pass_env" where
  "third_fails timeout =
     \<lparr>listEligibleStates = Inr five_states,
      recompute = (\<lambda>s. Inr (s\<lparr>attributes := attributes s + 1\<rparr>)),
      persist = (\<lambda>s. if ident s = 3 then Some ''write refused'' else None),
      deadline = timeout, clock_start = 0, clock_end = 60\<rparr>"

text \<open>A pass whose fetch fails.\<close>

definition fetch_refused :: pass_env where
  "fetch_refused =
     \<lparr>listEligibleStates = Inl ''connection refused'',
      recompute = (\<lambda>s. Inr s),
      persist = (\<lambda>s. None),
      deadline = None, clock_start = 0, clock_end = 60\<rparr>"

definition hourly :: string where
  "hourly = ''0 * * * *''"

text \<open>A started controller, and the same controller with a pass admitted at time 7.\<close>

definition idle_job :: controller where
  "idle_job = start 60 (new_job hourly)"

definition running_job :: controller where
  "running_job = idle_job\<lparr>status := (status idle_job)\<lparr>state := RUNNING, lastRunStartedAt := Some 7\<rparr>\<rparr>"

text \<open>Routers that answer nothing: every request under \<^verbatim>\<open>/api\<close> falls through.\<close>

definition no_routers :: "request \<Rightarrow> response option" where
  "no_routers req = None"

text \<open>
  A site with those routers, an error middleware that answers 400, and a module loaded
  at time 1.
\<close>

definition bare_site :: site where
  "bare_site =
     \<lparr>api_routers = no_routers,
      errorMiddleware = (\<lambda>req. \<lparr>status_code = 400, body = [(''success'', JBool False)]\<rparr>),
      loaded_at = 1\<rparr>"

section \<open>Properties of the batch executor\<close>

subsection \<open>The loop\<close>

lemma handled_Cons:
  "left \<noteq> Some 0 \<Longrightarrow> handled left (s # rest) = s # handled (map_option (\<lambda>n. n - 1) left) rest"
  by (cases left) (auto simp: handled_def take_Cons split: nat.splits)


lemma handled_zero: "handled (Some 0) xs = []"
  by (simp add: handled_def)





text \<open>The loop reports a timeout exactly when it leaves states unhandled.\<close>

lemma process_states_expired:
  "fst (process_states env left xs acc) \<longleftrightarrow> length (handled left xs) < length xs"
proof (induction xs arbitrary: left acc)
  case Nil
  show ?case by (simp add: handled_def split: option.splits)
next
  case (Cons s rest)
  show ?case
  proof (cases "left = Some 0")
    case True
    then show ?thesis by (simp add: handled_zero)
  next
    case False
    then show ?thesis using Cons.IH by (simp add: handled_Cons)
  qed
qed

text \<open>
  Each state adds one to exactly one of the two counters, whether it is handled or
  abandoned.
\<close>

lemma record_item_counts:
  "acc_processed (record_item s res acc) + acc_failed (record_item s res acc)
     = acc_processed acc + acc_failed acc + 1"
  by (simp add: record_item_def split: sum.splits)

lemma abandon_counts:
  "acc_processed (abandon remaining acc) + acc_failed (abandon remaining acc)
     = acc_processed acc + acc_failed acc + length remaining"
  by (simp add: abandon_def)

lemma process_states_counts:
  "acc_processed (snd (process_states env left xs acc))
     + acc_failed (snd (process_states env left xs acc))
   = acc_processed acc + acc_failed acc + length xs"
proof (induction xs arbitrary: left acc)
  case Nil
  show ?case by simp
next
  case (Cons s rest)
  show ?case
  proof (cases "left = Some 0")
    case True
    then show ?thesis using abandon_counts [of "s # rest" acc] by simp
  next
    case False
    then show ?thesis
      using Cons.IH record_item_counts [of s "process_state env s" acc] by simp
  qed
qed


lemma process_states_writes:
  "acc_writes (snd (process_states env left xs acc))
     = acc_writes acc @ writes_of env (handled left xs)"
proof (induction xs arbitrary: left acc)
  case Nil
  show ?case by (simp add: handled_def split: option.splits)
next
  case (Cons s rest)
  show ?case
  proof (cases "left = Some 0")
    case True
    then show ?thesis by (simp add: handled_zero abandon_def)
  next
    case False
    then show ?thesis using Cons.IH
      by (simp add: handled_Cons record_item_def split: sum.splits)
  qed
qed







subsection \<open>A pass\<close>

lemma run_pass_fetched:
  "listEligibleStates env = Inr xs \<Longrightarrow>
   run_pass env =
     ((if length (handled (deadline env) xs) < length xs
       then TimedOut (result_of_acc env (snd (process_states env (deadline env) xs empty_acc)))
       else Completed (result_of_acc env (snd (process_states env (deadline env) xs empty_acc)))),
      writes_of env (handled (deadline env) xs))"
  using process_states_expired [of env "deadline env" xs empty_acc]
    process_states_writes [of env "deadline env" xs empty_acc]
  by (simp add: run_pass_def case_prod_unfold) (simp add: empty_acc_def)


lemma run_pass_fetch_failed:
  "listEligibleStates env = Inl r \<Longrightarrow> run_pass env = (FetchFailed r, [])"
  by (simp add: run_pass_def)

text \<open>
  C2: every RunResult the Batch Executor returns satisfies processedCount + failedCount
  = the number of states fetched for that pass, whatever fails in the pass (nothing,
  everything, or some states) and whether or not the timeout cuts it short; and every
  pass whose fetch succeeds returns a RunResult.
\<close>

theorem counts_cover_fetched_states:
  "(listEligibleStates env = Inr fetched \<longrightarrow>
      (\<exists>r. run_result_of (fst (run_pass env)) = Some r
         \<and> processedCount r + failedCount r = length fetched))
   \<and> (run_result_of (fst (run_pass env)) = Some r \<longrightarrow>
      (\<exists>fetched. listEligibleStates env = Inr fetched
         \<and> processedCount r + failedCount r = length fetched))"
proof -
  have fetched: "\<exists>r. run_result_of (fst (run_pass env)) = Some r
      \<and> processedCount r + failedCount r = length xs"
    if "listEligibleStates env = Inr xs" for xs
  proof -
    let ?r = "result_of_acc env (snd (process_states env (deadline env) xs empty_acc))"
    have "processedCount ?r + failedCount ?r = length xs"
      using process_states_counts [of env "deadline env" xs empty_acc]
      by (simp add: result_of_acc_def empty_acc_def)
    moreover have "run_result_of (fst (run_pass env)) = Some ?r"
      using that by (simp add: run_pass_fetched)
    ultimately show ?thesis by blast
  qed
  have returned: "\<exists>xs. listEligibleStates env = Inr xs
      \<and> processedCount r + failedCount r = length xs"
    if r: "run_result_of (fst (run_pass env)) = Some r"
  proof (cases "listEligibleStates env")
    case (Inl why)
    then show ?thesis using r by (simp add: run_pass_fetch_failed)
  next
    case (Inr xs)
    then show ?thesis using fetched [OF Inr] r by auto
  qed
  show ?thesis using fetched returned by blast
qed

text \<open>
  Five states fetched and the write of the third refused: without a timeout the
  RunResult counts 4 + 1; with a timeout after the third state it counts 2 + 3, the two
  abandoned states among the failed.
\<close>

theorem counts_cover_fetched_states_witness:
  "map_option (\<lambda>r. (processedCount r, failedCount r)) (run_result_of (fst (run_pass (third_fails None))))
     = Some (4, 1)
   \<and> map_option (\<lambda>r. (processedCount r, failedCount r)) (run_result_of (fst (run_pass (third_fails (Some 3)))))
     = Some (2, 3)
   \<and> (\<exists>r. run_result_of (fst (run_pass (third_fails (Some 3)))) = Some r
         \<and> processedCount r + failedCount r = 5)"
proof -
  have fetched: "listEligibleStates (third_fails (Some 3)) = Inr five_states"
    by (simp add: third_fails_def)
  have len: "length five_states = 5"
    by (simp add: five_states_def)
  have "\<exists>r. run_result_of (fst (run_pass (third_fails (Some 3)))) = Some r
         \<and> processedCount r + failedCount r = 5"
    using counts_cover_fetched_states [of "third_fails (Some 3)" five_states] fetched len by simp
  moreover have "map_option (\<lambda>r. (processedCount r, failedCount r))
      (run_result_of (fst (run_pass (third_fails None)))) = Some (4, 1)"
    by (simp add: run_pass_def third_fails_def five_states_def empty_acc_def record_item_def
        process_state_def result_of_acc_def)
  moreover have "map_option (\<lambda>r. (processedCount r, failedCount r))
      (run_result_of (fst (run_pass (third_fails (Some 3))))) = Some (2, 3)"
    by (simp add: run_pass_def third_fails_def five_states_def empty_acc_def record_item_def
        process_state_def result_of_acc_def abandon_def)
  ultimately show ?thesis by blast
qed





section \<open>Properties of the job controller\<close>

lemma complete_fetch_failed:
  "listEligibleStates env = Inl r \<Longrightarrow> complete env c = (FetchFailed r, finish_pass env (FetchFailed r) c)"
  by (simp add: complete_def run_pass_fetch_failed)

lemma finish_pass_fetch_failed:
  "lastRunOutcome (getStatus (finish_pass env (FetchFailed r) c)) = Some FAILURE"
  "lastRunProcessedCount (getStatus (finish_pass env (FetchFailed r) c)) = 0"
  "lastRunFailedCount (getStatus (finish_pass env (FetchFailed r) c)) = 0"
  by (simp_all add: finish_pass_def getStatus_def)

lemma admit_idle:
  "state (getStatus c) = IDLE \<Longrightarrow>
   admit now c = Inr (c\<lparr>status := (status c)\<lparr>state := RUNNING, lastRunStartedAt := Some now\<rparr>\<rparr>)"
  by (simp add: admit_def getStatus_def)

lemma admit_running: "state (getStatus c) = RUNNING \<Longrightarrow> admit now c = Inl AlreadyRunning"
  by (simp add: admit_def getStatus_def)

lemma admit_stopped: "state (getStatus c) = STOPPED \<Longrightarrow> admit now c = Inl NotInitialized"
  by (simp add: admit_def getStatus_def)

lemma tick_admit_idle: "state (getStatus c) = IDLE \<Longrightarrow> tick_admit now c = admit now c"
  by (simp add: tick_admit_def getStatus_def)

lemma tick_admit_running: "state (getStatus c) = RUNNING \<Longrightarrow> tick_admit now c = Inl AlreadyRunning"
  by (simp add: tick_admit_def getStatus_def)

text \<open>
  C5: for every pass in which fetching the eligible states fails, the pass fails with the
  fetch error, it has no RunResult and writes no state, and the controller that ran it
  (from a tick or from \<open>executeManual()\<close>) records lastRunOutcome = FAILURE with
  lastRunProcessedCount = lastRunFailedCount = 0.
\<close>

theorem fetch_failure_fails_pass:
  assumes "listEligibleStates env = Inl r"
  shows "run_pass env = (FetchFailed r, [])
       \<and> run_result_of (fst (run_pass env)) = None
       \<and> lastRunOutcome (getStatus (snd (complete env c))) = Some FAILURE
       \<and> lastRunProcessedCount (getStatus (snd (complete env c))) = 0
       \<and> lastRunFailedCount (getStatus (snd (complete env c))) = 0
       \<and> (state (getStatus c) = IDLE \<longrightarrow>
            fst (executeManual now env c) = Inl (FetchError r)
            \<and> lastRunOutcome (getStatus (snd (executeManual now env c))) = Some FAILURE
            \<and> lastRunProcessedCount (getStatus (snd (executeManual now env c))) = 0
            \<and> lastRunFailedCount (getStatus (snd (executeManual now env c))) = 0
            \<and> lastRunOutcome (getStatus (tick now env c)) = Some FAILURE
            \<and> lastRunProcessedCount (getStatus (tick now env c)) = 0
            \<and> lastRunFailedCount (getStatus (tick now env c)) = 0)"
proof -
  have rp: "run_pass env = (FetchFailed r, [])"
    using assms by (rule run_pass_fetch_failed)
  have idle: "state (getStatus c) = IDLE \<Longrightarrow>
      executeManual now env c
        = (Inl (FetchError r), finish_pass env (FetchFailed r)
             (c\<lparr>status := (status c)\<lparr>state := RUNNING, lastRunStartedAt := Some now\<rparr>\<rparr>))
      \<and> tick now env c = finish_pass env (FetchFailed r)
             (c\<lparr>status := (status c)\<lparr>state := RUNNING, lastRunStartedAt := Some now\<rparr>\<rparr>)"
    using assms
    by (simp add: executeManual_def tick_def tick_admit_idle admit_idle complete_fetch_failed)
  show ?thesis
    using rp idle assms by (simp add: complete_fetch_failed finish_pass_fetch_failed)
qed

text \<open>The pass \<open>fetch_refused\<close>, run by a tick and by a manual call at time 7.\<close>

theorem fetch_failure_fails_pass_witness:
  "run_pass fetch_refused = (FetchFailed ''connection refused'', [])
   \<and> lastRunOutcome (getStatus (snd (complete fetch_refused running_job))) = Some FAILURE
   \<and> lastRunProcessedCount (getStatus (snd (complete fetch_refused running_job))) = 0
   \<and> lastRunFailedCount (getStatus (snd (complete fetch_refused running_job))) = 0
   \<and> fst (executeManual 7 fetch_refused idle_job) = Inl (FetchError ''connection refused'')
   \<and> lastRunOutcome (getStatus (tick 7 fetch_refused idle_job)) = Some FAILURE"
proof -
  have fetch: "listEligibleStates fetch_refused = Inl ''connection refused''"
    by (simp add: fetch_refused_def)
  have idle: "state (getStatus idle_job) = IDLE"
    by (simp add: idle_job_def start_def new_job_def getStatus_def)
  show ?thesis
    using fetch_failure_fails_pass [OF fetch, of running_job 7]
      fetch_failure_fails_pass [OF fetch, of idle_job 7] idle
    by simp
qed

lemma finish_pass_not_running: "state (getStatus (finish_pass env out c)) \<noteq> RUNNING"
  by (simp add: finish_pass_def getStatus_def)

lemma complete_not_running: "state (getStatus (snd (complete env c))) \<noteq> RUNNING"
  by (simp add: complete_def finish_pass_not_running)

lemma admit_Inr: "admit now c = Inr c' \<Longrightarrow> state (getStatus c) = IDLE \<and> state (getStatus c') = RUNNING"
  by (cases "state (status c)") (auto simp: admit_def getStatus_def split: if_splits)

lemma tick_admit_Inr: "tick_admit now c = Inr c' \<Longrightarrow> state (getStatus c) = IDLE \<and> state (getStatus c') = RUNNING"
  by (auto simp: tick_admit_def dest: admit_Inr split: if_splits)

lemma start_state:
  "state (getStatus (start n c)) = (if state (getStatus c) = STOPPED then IDLE else state (getStatus c))"
  by (simp add: start_def getStatus_def)

lemma stop_state:
  "state (getStatus (stop c)) = (if state (getStatus c) = RUNNING then RUNNING else STOPPED)"
  by (simp add: stop_def getStatus_def)

lemma tick_rejected_state: "state (getStatus (tick_rejected e c)) = state (getStatus c)"
  by (simp add: tick_rejected_def getStatus_def)

lemma consistent_step: "consistent s \<Longrightarrow> consistent (step e s)"
proof (cases e)
  case (StartCalled n)
  assume "consistent s"
  then show ?thesis using StartCalled by (auto simp: consistent_def start_state)
next
  case StopCalled
  assume "consistent s"
  then show ?thesis using StopCalled by (auto simp: consistent_def stop_state)
next
  case (TickFires now)
  assume c: "consistent s"
  show ?thesis
  proof (cases "tick_admit now (ctl s)")
    case (Inl err)
    then show ?thesis using c TickFires by (simp add: consistent_def tick_rejected_state)
  next
    case (Inr c')
    then show ?thesis using c TickFires tick_admit_Inr [OF Inr] by (auto simp: consistent_def)
  qed
next
  case (ManualCalled now)
  assume c: "consistent s"
  show ?thesis
  proof (cases "admit now (ctl s)")
    case (Inl err)
    then show ?thesis using c ManualCalled by simp
  next
    case (Inr c')
    then show ?thesis using c ManualCalled admit_Inr [OF Inr] by (auto simp: consistent_def)
  qed
next
  case (PassExits env)
  assume c: "consistent s"
  then show ?thesis using PassExits complete_not_running [of env "ctl s"]
    by (auto simp: consistent_def)
qed

lemma consistent_run: "consistent s \<Longrightarrow> consistent (run_events es s)"
  by (induction es arbitrary: s) (simp_all add: consistent_step)

lemma consistent_fresh: "consistent (fresh_system schedule)"
  by (simp add: consistent_def fresh_system_def new_job_def getStatus_def)

text \<open>
  C1: after every sequence of \<open>start()\<close>, \<open>stop()\<close>, scheduled ticks, calls of
  \<open>executeManual()\<close> and pass exits, in any order, at most one pass is running, and one is
  running exactly when the controller's state is RUNNING; whenever the state is RUNNING,
  a tick and a call of \<open>executeManual()\<close> are both refused with AlreadyRunning and start no
  pass.
\<close>

theorem at_most_one_pass_running:
  "passes_running (run_events es (fresh_system schedule)) \<le> 1
   \<and> (passes_running (run_events es (fresh_system schedule)) = 1
        \<longleftrightarrow> state (getStatus (ctl (run_events es (fresh_system schedule)))) = RUNNING)
   \<and> (state (getStatus (ctl s)) = RUNNING \<longrightarrow>
        tick_admit now (ctl s) = Inl AlreadyRunning
        \<and> admit now (ctl s) = Inl AlreadyRunning
        \<and> passes_running (step (TickFires now) s) = passes_running s
        \<and> passes_running (step (ManualCalled now) s) = passes_running s
        \<and> state (getStatus (ctl (step (TickFires now) s))) = RUNNING
        \<and> state (getStatus (ctl (step (ManualCalled now) s))) = RUNNING)"
proof -
  have "consistent (run_events es (fresh_system schedule))"
    using consistent_fresh by (rule consistent_run)
  then have reach: "passes_running (run_events es (fresh_system schedule)) \<le> 1
     \<and> (passes_running (run_events es (fresh_system schedule)) = 1
        \<longleftrightarrow> state (getStatus (ctl (run_events es (fresh_system schedule)))) = RUNNING)"
    by (simp add: consistent_def)
  have rej: "state (getStatus (ctl s)) = RUNNING \<Longrightarrow>
        tick_admit now (ctl s) = Inl AlreadyRunning
        \<and> admit now (ctl s) = Inl AlreadyRunning
        \<and> passes_running (step (TickFires now) s) = passes_running s
        \<and> passes_running (step (ManualCalled now) s) = passes_running s
        \<and> state (getStatus (ctl (step (TickFires now) s))) = RUNNING
        \<and> state (getStatus (ctl (step (ManualCalled now) s))) = RUNNING"
    by (simp add: tick_admit_running admit_running tick_rejected_state)
  show ?thesis using reach rej by blast
qed

text \<open>A tick admitted at time 7; the tick at 8 and the manual call at 9 start nothing.\<close>

theorem at_most_one_pass_running_witness:
  "passes_running (run_events [StartCalled 60, TickFires 7] (fresh_system hourly)) = 1
   \<and> state (getStatus (ctl (run_events [StartCalled 60, TickFires 7] (fresh_system hourly)))) = RUNNING
   \<and> passes_running (run_events [StartCalled 60, TickFires 7, TickFires 8, ManualCalled 9] (fresh_system hourly)) = 1"
  using at_most_one_pass_running [of "[StartCalled 60, TickFires 7]" hourly
      "run_events [StartCalled 60, TickFires 7] (fresh_system hourly)" 8]
    at_most_one_pass_running [of "[StartCalled 60, TickFires 7]" hourly
      "run_events [StartCalled 60, TickFires 7, TickFires 8] (fresh_system hourly)" 9]
  by (simp add: fresh_system_def tick_admit_def admit_def start_def new_job_def getStatus_def tick_rejected_def)

section \<open>Properties of the routes\<close>

lemma executeManual_rejected:
  "admit now c = Inl e \<Longrightarrow> executeManual now env c = (Inl e, c)"
  by (simp add: executeManual_def)

lemma execute_route_rejected:
  "admit now c = Inl e \<Longrightarrow> execute_route (Some c) now env = (manual_failed e, Some c)"
  by (simp add: execute_route_def executeManual_rejected manual_failed_def)

lemma matches_self:
  "route_matches ''/health'' ''/health''"
  "route_matches ''/admin/economic-job/status'' ''/admin/economic-job/status''"
  "route_matches ''/admin/economic-job/execute'' ''/admin/economic-job/execute''"
  by (simp_all add: route_matches_def Let_def lower_def)

lemma execute_path_elsewhere:
  assumes "route_matches ''/admin/economic-job/execute'' path"
  shows "\<not> route_matches ''/health'' path"
    and "\<not> route_matches ''/admin/economic-job/status'' path"
    and "\<not> list_ex (\<lambda>prefix. mounted_at prefix path) api_mounts"
proof -
  have low: "map lower path = ''/admin/economic-job/execute''
      \<or> map lower path = ''/admin/economic-job/execute/''"
    using assms by (simp add: route_matches_def Let_def lower_def)
  show "\<not> route_matches ''/health'' path"
    using low by (auto simp: route_matches_def Let_def lower_def)
  show "\<not> route_matches ''/admin/economic-job/status'' path"
    using low by (auto simp: route_matches_def Let_def lower_def)
  show "\<not> list_ex (\<lambda>prefix. mounted_at prefix path) api_mounts"
    using low by (auto simp: mounted_at_def Let_def api_mounts_def lower_def)
qed

lemma handed_on_passes: "m \<noteq> OPTIONS \<Longrightarrow> middlewares site (handed_on m path) = None"
  by (simp add: middlewares_def handed_on_def)

lemma app_handed_on:
  "m \<noteq> OPTIONS \<Longrightarrow>
   app node_env site job now env (handed_on m path)
     = route_table node_env (api_routers site) job now env (handed_on m path)"
  by (simp add: app_def handed_on_passes)

lemma route_table_execute_development:
  "route_table (Some ''development'') routers job now env execute_request = execute_route job now env"
  using execute_path_elsewhere [OF matches_self(3)]
  by (simp add: route_table_def execute_request_def handed_on_def matches_self get_like_def)

lemma app_execute_development:
  "app (Some ''development'') site job now env execute_request = execute_route job now env"
  using app_handed_on [of POST "Some ''development''" site job now env "''/admin/economic-job/execute''"]
  by (simp add: route_table_execute_development [unfolded execute_request_def])
    (simp add: execute_request_def)

lemma running_job_state: "state (getStatus running_job) = RUNNING"
  by (simp add: running_job_def getStatus_def)

lemma new_job_state: "state (getStatus (new_job schedule)) = STOPPED"
  by (simp add: new_job_def getStatus_def)

text \<open>
  C4: whenever the controller's state is RUNNING, \<open>executeManual()\<close> fails with
  AlreadyRunning, starts no pass and leaves the controller as it was, so that the pass in
  flight exits with the same result and status; whenever the state is STOPPED it fails
  with NotInitialized (the specification's NotInitialized/Stopped). The handler of
  \<^verbatim>\<open>POST /admin/economic-job/execute\<close> answers either failure with status 500 and the
  message of the error.
\<close>

theorem manual_rejected:
  "(state (getStatus c) = RUNNING \<longrightarrow>
      executeManual now env c = (Inl AlreadyRunning, c)
      \<and> step (ManualCalled now) \<lparr>ctl = c, passes_running = n\<rparr> = \<lparr>ctl = c, passes_running = n\<rparr>
      \<and> complete env' (snd (executeManual now env c)) = complete env' c
      \<and> execute_route (Some c) now env = (manual_failed AlreadyRunning, Some c)
      \<and> route_table (Some ''development'') routers (Some c) now env execute_request
          = (manual_failed AlreadyRunning, Some c)
      \<and> app (Some ''development'') site (Some c) now env execute_request
          = (manual_failed AlreadyRunning, Some c))
   \<and> (state (getStatus c) = STOPPED \<longrightarrow>
      executeManual now env c = (Inl NotInitialized, c)
      \<and> step (ManualCalled now) \<lparr>ctl = c, passes_running = n\<rparr> = \<lparr>ctl = c, passes_running = n\<rparr>
      \<and> execute_route (Some c) now env = (manual_failed NotInitialized, Some c)
      \<and> route_table (Some ''development'') routers (Some c) now env execute_request
          = (manual_failed NotInitialized, Some c)
      \<and> app (Some ''development'') site (Some c) now env execute_request
          = (manual_failed NotInitialized, Some c))"
proof (intro conjI impI)
  assume r: "state (getStatus c) = RUNNING"
  have a: "admit now c = Inl AlreadyRunning" using r by (rule admit_running)
  show "executeManual now env c = (Inl AlreadyRunning, c)"
    using a by (rule executeManual_rejected)
  then show "complete env' (snd (executeManual now env c)) = complete env' c" by simp
  show "step (ManualCalled now) \<lparr>ctl = c, passes_running = n\<rparr> = \<lparr>ctl = c, passes_running = n\<rparr>"
    using a by simp
  show route: "execute_route (Some c) now env = (manual_failed AlreadyRunning, Some c)"
    using a by (rule execute_route_rejected)
  show "route_table (Some ''development'') routers (Some c) now env execute_request
          = (manual_failed AlreadyRunning, Some c)"
    using route by (simp add: route_table_execute_development)
  show "app (Some ''development'') site (Some c) now env execute_request
          = (manual_failed AlreadyRunning, Some c)"
    using route by (simp add: app_execute_development)
next
  assume r: "state (getStatus c) = STOPPED"
  have a: "admit now c = Inl NotInitialized" using r by (rule admit_stopped)
  show "executeManual now env c = (Inl NotInitialized, c)"
    using a by (rule executeManual_rejected)
  show "step (ManualCalled now) \<lparr>ctl = c, passes_running = n\<rparr> = \<lparr>ctl = c, passes_running = n\<rparr>"
    using a by simp
  show route: "execute_route (Some c) now env = (manual_failed NotInitialized, Some c)"
    using a by (rule execute_route_rejected)
  show "route_table (Some ''development'') routers (Some c) now env execute_request
          = (manual_failed NotInitialized, Some c)"
    using route by (simp add: route_table_execute_development)
  show "app (Some ''development'') site (Some c) now env execute_request
          = (manual_failed NotInitialized, Some c)"
    using route by (simp add: app_execute_development)
qed

text \<open>A manual call during the pass admitted at time 7, and one on a job never started.\<close>

theorem manual_rejected_witness:
  "executeManual 9 (third_fails None) running_job = (Inl AlreadyRunning, running_job)
   \<and> fst (app (Some ''development'') bare_site (Some running_job) 9 (third_fails None) execute_request)
       = \<lparr>status_code = 500,
          body = [(''success'', JBool False),
                  (''message'', JString ''Erro ao executar job manualmente''),
                  (''error'', JErrorMessage AlreadyRunning)]\<rparr>
   \<and> executeManual 9 (third_fails None) (new_job hourly) = (Inl NotInitialized, new_job hourly)
   \<and> status_code (fst (execute_route (Some (new_job hourly)) 9 (third_fails None))) = 500"
  using manual_rejected [of running_job 9 "third_fails None" 1 fetch_refused no_routers bare_site]
    manual_rejected [of "new_job hourly" 9 "third_fails None" 0 fetch_refused no_routers bare_site]
  by (simp add: running_job_state new_job_state manual_failed_def)

lemma route_table_status:
  "route_table node_env routers job now env
     \<lparr>req_method = GET, req_path = ''/admin/economic-job/status'', over_limit = l, malformed_body = b\<rparr>
   = (status_route job now, job)"
proof -
  have "\<not> route_matches ''/health'' ''/admin/economic-job/status''"
    by (simp add: route_matches_def Let_def lower_def)
  then show ?thesis
    by (simp add: route_table_def get_like_def matches_self)
qed

lemma route_table_health:
  "route_table node_env routers job now env
     \<lparr>req_method = GET, req_path = ''/health'', over_limit = l, malformed_body = b\<rparr>
   = (health_route node_env job now, job)"
  by (simp add: route_table_def get_like_def matches_self)

text \<open>
  C6: \<^verbatim>\<open>GET /admin/economic-job/status\<close> answers 503 with \<open>success\<close> false when
  \<^verbatim>\<open>economicJob\<close> is null, and otherwise 200 with \<open>success\<close> true and \<open>data\<close> the output of
  \<open>getStatus()\<close>.
\<close>

theorem status_route_response:
  "status_code (status_route None now) = 503
   \<and> field ''success'' (status_route None now) = Some (JBool False)
   \<and> status_code (status_route (Some j) now) = 200
   \<and> field ''success'' (status_route (Some j) now) = Some (JBool True)
   \<and> field ''data'' (status_route (Some j) now) = Some (JStatus (getStatus j))
   \<and> route_table node_env routers job now env
        \<lparr>req_method = GET, req_path = ''/admin/economic-job/status'', over_limit = l, malformed_body = b\<rparr>
       = (status_route job now, job)
   \<and> app node_env site job now env (handed_on GET ''/admin/economic-job/status'')
       = (status_route job now, job)"
proof -
  have "app node_env site job now env (handed_on GET ''/admin/economic-job/status'')
       = (status_route job now, job)"
    using app_handed_on [of GET node_env site job now env "''/admin/economic-job/status''"]
    by (simp add: handed_on_def route_table_status)
  then show ?thesis
    by (simp add: status_route_def field_def route_table_status)
qed

text \<open>The status route without a job, and with a job that runs a pass.\<close>

theorem status_route_response_witness:
  "fst (app (Some ''production'') bare_site None 9 fetch_refused
         (handed_on GET ''/admin/economic-job/status''))
     = \<lparr>status_code = 503,
        body = [(''success'', JBool False), (''message'', JString job_not_initialized)]\<rparr>
   \<and> fst (app (Some ''production'') bare_site (Some running_job) 9 fetch_refused
         (handed_on GET ''/admin/economic-job/status''))
     = \<lparr>status_code = 200,
        body = [(''success'', JBool True), (''data'', JStatus (getStatus running_job)),
                (''timestamp'', JTimestamp 9)]\<rparr>"
  using status_route_response [of 9 running_job "Some ''production''" no_routers None fetch_refused
      False False bare_site]
    status_route_response [of 9 running_job "Some ''production''" no_routers "Some running_job"
      fetch_refused False False bare_site]
  by (simp add: status_route_def)

text \<open>
  C7: the response of \<^verbatim>\<open>GET /health\<close> always has the property \<open>economic_job_status\<close>: the
  output of \<open>getStatus()\<close> when \<^verbatim>\<open>economicJob\<close> is set, the string \<open>not_initialized\<close> when it
  is null. The handler is a total function of the job: no case of it raises.
\<close>

theorem health_reports_job:
  "status_code (health_route node_env job now) = 200
   \<and> field ''economic_job_status'' (health_route node_env None now) = Some (JString ''not_initialized'')
   \<and> field ''economic_job_status'' (health_route node_env (Some j) now) = Some (JStatus (getStatus j))
   \<and> route_table node_env routers job now env
        \<lparr>req_method = GET, req_path = ''/health'', over_limit = l, malformed_body = b\<rparr>
       = (health_route node_env job now, job)
   \<and> app node_env site job now env (handed_on GET ''/health'')
       = (health_route node_env job now, job)"
proof -
  have "app node_env site job now env (handed_on GET ''/health'')
       = (health_route node_env job now, job)"
    using app_handed_on [of GET node_env site job now env "''/health''"]
    by (simp add: handed_on_def route_table_health)
  then show ?thesis
    by (simp add: health_route_def field_def route_table_health)
qed

text \<open>The health route without a job, and with a job that was never started.\<close>

theorem health_reports_job_witness:
  "field ''economic_job_status''
     (fst (app None bare_site None 9 fetch_refused (handed_on GET ''/health'')))
     = Some (JString ''not_initialized'')
   \<and> field ''economic_job_status''
     (fst (app None bare_site (Some (new_job hourly)) 9 fetch_refused (handed_on GET ''/health'')))
     = Some (JStatus (getStatus (new_job hourly)))
   \<and> state (getStatus (new_job hourly)) = STOPPED"
  using health_reports_job [of None None 9 "new_job hourly" no_routers fetch_refused False False bare_site]
    health_reports_job [of None "Some (new_job hourly)" 9 "new_job hourly" no_routers fetch_refused
      False False bare_site]
  by (simp add: new_job_state)

lemma route_table_execute_absent:
  assumes "node_env \<noteq> Some ''development''"
    and "route_matches ''/admin/economic-job/execute'' path"
  shows "route_table node_env routers job now env
           \<lparr>req_method = m, req_path = path, over_limit = l, malformed_body = b\<rparr>
         = (not_found_route now, job)"
  using assms execute_path_elsewhere [OF assms(2)] by (simp add: route_table_def)

text \<open>
  C10 fails as stated: in production, an OPTIONS request to the path of the manual route
  is ended by \<^verbatim>\<open>cors\<close> with status 204 and no body, before any route and before the
  \<^verbatim>\<open>'*'\<close> handler.
\<close>

theorem options_answered_by_cors_counterexample:
  "Some ''production'' \<noteq> Some ''development''
   \<and> fst (app (Some ''production'') bare_site (Some idle_job) 9 fetch_refused
            \<lparr>req_method = OPTIONS, req_path = ''/admin/economic-job/execute'',
             over_limit = False, malformed_body = False\<rparr>)
       = \<lparr>status_code = 204, body = []\<rparr>"
  by (simp add: app_def middlewares_def cors_preflight_def)

text \<open>
  C10, amended: when \<^verbatim>\<open>NODE_ENV\<close> is not \<open>development\<close>, the manual route is not in the
  route table, and every request to its path that the global middlewares hand on to the
  routes (any method but OPTIONS, within the rate limit, with a body the parsers
  accept), with or without a job, reaches the \<^verbatim>\<open>'*'\<close> handler and is answered 404 with
  \<open>success\<close> false. An OPTIONS request to the path is answered 204 by \<^verbatim>\<open>cors\<close>; any other
  request over the rate limit is answered 429 by the limiter; any other request whose
  body is rejected is answered by the error middleware.
\<close>

theorem execute_route_absent:
  assumes "node_env \<noteq> Some ''development''"
    and "route_matches ''/admin/economic-job/execute'' path"
  shows "route_table node_env routers job now env
           \<lparr>req_method = m, req_path = path, over_limit = l, malformed_body = b\<rparr>
         = (not_found_route now, job)
       \<and> (m \<noteq> OPTIONS \<longrightarrow>
            app node_env site job now env
              \<lparr>req_method = m, req_path = path, over_limit = False, malformed_body = False\<rparr>
            = (not_found_route now, job))
       \<and> status_code (not_found_route now) = 404
       \<and> field ''success'' (not_found_route now) = Some (JBool False)
       \<and> app node_env site job now env
            \<lparr>req_method = OPTIONS, req_path = path, over_limit = l, malformed_body = b\<rparr>
          = (cors_preflight, job)
       \<and> (m \<noteq> OPTIONS \<longrightarrow>
            app node_env site job now env
              \<lparr>req_method = m, req_path = path, over_limit = True, malformed_body = b\<rparr>
            = (too_many_requests (loaded_at site), job))
       \<and> (m \<noteq> OPTIONS \<longrightarrow>
            app node_env site job now env
              \<lparr>req_method = m, req_path = path, over_limit = False, malformed_body = True\<rparr>
            = (errorMiddleware site
                 \<lparr>req_method = m, req_path = path, over_limit = False, malformed_body = True\<rparr>, job))
       \<and> (m \<noteq> OPTIONS \<and> NODE_ENV p = node_env \<and> exit_code p = None \<longrightarrow>
            serve site now env
              \<lparr>req_method = m, req_path = path, over_limit = False, malformed_body = False\<rparr> p
            = (Some (not_found_route now), p))"
proof -
  have table: "route_table node_env routers' job' now env
      \<lparr>req_method = m, req_path = path, over_limit = l', malformed_body = b'\<rparr>
      = (not_found_route now, job')" for routers' job' l' b'
    using assms by (rule route_table_execute_absent)
  have passed: "m \<noteq> OPTIONS \<Longrightarrow>
      app node_env site job' now env
        \<lparr>req_method = m, req_path = path, over_limit = False, malformed_body = False\<rparr>
      = (not_found_route now, job')" for job'
    by (simp add: app_def middlewares_def table)
  have served: "m \<noteq> OPTIONS \<and> NODE_ENV p = node_env \<and> exit_code p = None \<longrightarrow>
      serve site now env
        \<lparr>req_method = m, req_path = path, over_limit = False, malformed_body = False\<rparr> p
      = (Some (not_found_route now), p)"
    by (simp add: serve_def passed)
  show ?thesis
    using table passed served
    by (simp add: app_def middlewares_def not_found_route_def field_def)
qed

text \<open>
  The request for a manual run in production with a job, and with \<^verbatim>\<open>NODE_ENV\<close> unset
  without one; the same request from a client over the rate limit.
\<close>

theorem execute_route_absent_witness:
  "fst (app (Some ''production'') bare_site (Some idle_job) 9 (third_fails None) execute_request)
     = \<lparr>status_code = 404,
        body = [(''success'', JBool False),
                (''message'', JString (''Rota n'' @ a_tilde @ ''o encontrada'')),
                (''timestamp'', JTimestamp 9)]\<rparr>
   \<and> fst (app None bare_site None 9 (third_fails None) execute_request) = not_found_route 9
   \<and> status_code (fst (app (Some ''production'') bare_site (Some idle_job) 9 (third_fails None)
        \<lparr>req_method = POST, req_path = ''/admin/economic-job/execute'',
         over_limit = True, malformed_body = False\<rparr>)) = 429"
proof -
  have prod: "Some ''production'' \<noteq> Some ''development''" by simp
  have unset: "(None :: string option) \<noteq> Some ''development''" by simp
  have post: "POST \<noteq> OPTIONS" by simp
  show ?thesis
    using execute_route_absent [OF prod matches_self(3), of no_routers "Some idle_job" 9
        "third_fails None" POST False False bare_site]
      execute_route_absent [OF unset matches_self(3), of no_routers None 9
        "third_fails None" POST False False bare_site] post
    by (simp add: execute_request_def handed_on_def not_found_route_def too_many_requests_def)
qed

section \<open>Properties of the process\<close>

lemma app_no_job: "snd (app node_env site None now env req) = None"
  by (simp add: app_def route_table_def execute_route_def split: option.splits)

lemma serve_calls: "calls (snd (serve site now env req p)) = calls p"
  by (simp add: serve_def split: prod.splits)


lemma serve_no_job: "economicJob p = None \<Longrightarrow> economicJob (snd (serve site now env req p)) = None"
  using app_no_job [of "NODE_ENV p" site now env req]
  by (auto simp: serve_def split: prod.splits)

lemma scheduled_calls: "calls (run_callback (scheduled_callback now env) p) = calls p"
  by (simp add: run_callback_def scheduled_callback_def split: option.splits)


lemma scheduled_no_job:
  "economicJob p = None \<Longrightarrow> economicJob (run_callback (scheduled_callback now env) p) = None"
  by (simp add: run_callback_def)

lemma act_calls: "calls (act site a p) = calls p"
  by (cases a) (simp_all add: serve_calls scheduled_calls)


lemma act_no_job: "economicJob p = None \<Longrightarrow> economicJob (act site a p) = None"
  by (cases a) (simp_all add: serve_no_job scheduled_no_job)

lemma on_signal_times:
  "k = Construct \<or> k = CallStart \<Longrightarrow> times_called k (on_signal sig p) = times_called k p"
  by (auto simp: on_signal_def process_exit_def times_called_def split: option.splits)

lemma on_uncaught_times:
  "k = Construct \<or> k = CallStart \<Longrightarrow> times_called k (on_uncaught p) = times_called k p"
  by (auto simp: on_uncaught_def process_exit_def times_called_def)

lemma on_signal_no_job: "economicJob p = None \<Longrightarrow> economicJob (on_signal sig p) = None"
  by (simp add: on_signal_def process_exit_def)

lemma on_uncaught_job: "economicJob (on_uncaught p) = economicJob p"
  by (simp add: on_uncaught_def process_exit_def)

lemma happen_times:
  "k = Construct \<or> k = CallStart \<Longrightarrow> times_called k (happen site h p) = times_called k p"
proof (cases h)
  case (Signal sig)
  assume "k = Construct \<or> k = CallStart"
  then show ?thesis using Signal by (simp add: on_signal_times)
next
  case Uncaught
  assume "k = Construct \<or> k = CallStart"
  then show ?thesis using Uncaught by (simp add: on_uncaught_times)
next
  case (Job a)
  then show ?thesis by (simp add: times_called_def act_calls)
qed

lemma happen_no_job: "economicJob p = None \<Longrightarrow> economicJob (happen site h p) = None"
  by (cases h) (simp_all add: on_signal_no_job on_uncaught_job act_no_job)

lemma run_process_times:
  "k = Construct \<or> k = CallStart \<Longrightarrow> times_called k (run_process site hs p) = times_called k p"
  by (induction hs arbitrary: p) (simp_all add: happen_times)

lemma run_process_no_job:
  "economicJob p = None \<Longrightarrow> economicJob (run_process site hs p) = None"
  by (induction hs arbitrary: p) (simp_all add: happen_no_job)

lemma boot_connected:
  "boot schedule next_fire Connected node_env =
     (if node_env \<noteq> Some ''test''
      then \<lparr>NODE_ENV = node_env, economicJob = Some (start next_fire (new_job schedule)),
            exit_code = None, calls = [Construct, CallStart, Listen]\<rparr>
      else \<lparr>NODE_ENV = node_env, economicJob = None, exit_code = None, calls = [Listen]\<rparr>)"
  by (simp add: boot_def startServer_def loaded_def)

lemma boot_test:
  "economicJob (boot schedule next_fire isConnected (Some ''test'')) = None"
  "times_called Construct (boot schedule next_fire isConnected (Some ''test'')) = 0"
  "times_called CallStart (boot schedule next_fire isConnected (Some ''test'')) = 0"
  by (cases isConnected; simp add: boot_def startServer_def loaded_def process_exit_def times_called_def)+

lemma boot_not_connected:
  "isConnected \<noteq> Connected \<Longrightarrow>
   boot schedule next_fire isConnected node_env
     = \<lparr>NODE_ENV = node_env, economicJob = None, exit_code = Some 1, calls = [Exit 1]\<rparr>"
  by (cases isConnected) (simp_all add: boot_def startServer_def loaded_def process_exit_def)

text \<open>
  C8 fails as stated: with \<^verbatim>\<open>NODE_ENV\<close> = \<open>production\<close> and a connection test that returns
  false, \<^verbatim>\<open>startServer\<close> exits with code 1 before the job is constructed, and \<open>start()\<close> is
  never called.
\<close>

theorem no_job_without_database_counterexample:
  "Some ''production'' \<noteq> Some ''test''
   \<and> economicJob (boot hourly 60 NotConnected (Some ''production'')) = None
   \<and> calls (boot hourly 60 NotConnected (Some ''production'')) = [Exit 1]
   \<and> times_called CallStart (boot hourly 60 NotConnected (Some ''production'')) = 0"
  by (simp add: boot_def startServer_def loaded_def process_exit_def times_called_def)

text \<open>
  C8, amended: when the connection test of \<^verbatim>\<open>startServer\<close> succeeds and \<^verbatim>\<open>NODE_ENV\<close> is not
  \<open>test\<close>, the job is constructed and started on boot, and whatever happens afterwards
  the constructor and \<open>start()\<close> have been called exactly once; when \<^verbatim>\<open>NODE_ENV\<close> is \<open>test\<close>
  the job is never constructed nor started, however the connection test settles and
  whatever happens afterwards; when the connection test fails the process exits with
  code 1 and never has a job; and on SIGTERM or SIGINT a running process calls \<open>stop()\<close>
  on the job, if it has one, and then \<^verbatim>\<open>process.exit(0)\<close>.
\<close>

theorem job_lifecycle:
  "(node_env \<noteq> Some ''test'' \<longrightarrow>
      economicJob (boot schedule next_fire Connected node_env) = Some (start next_fire (new_job schedule))
      \<and> times_called Construct (run_process site hs (boot schedule next_fire Connected node_env)) = 1
      \<and> times_called CallStart (run_process site hs (boot schedule next_fire Connected node_env)) = 1)
   \<and> economicJob (run_process site hs (boot schedule next_fire isConnected (Some ''test''))) = None
   \<and> times_called Construct (run_process site hs (boot schedule next_fire isConnected (Some ''test''))) = 0
   \<and> times_called CallStart (run_process site hs (boot schedule next_fire isConnected (Some ''test''))) = 0
   \<and> (isConnected \<noteq> Connected \<longrightarrow>
        exit_code (boot schedule next_fire isConnected node_env) = Some 1
        \<and> economicJob (run_process site hs (boot schedule next_fire isConnected node_env)) = None)
   \<and> (exit_code p = None \<longrightarrow>
        calls (on_signal sig p)
          = calls p @ (case economicJob p of Some j \<Rightarrow> [CallStop] | None \<Rightarrow> []) @ [Exit 0]
        \<and> economicJob (on_signal sig p) = map_option stop (economicJob p)
        \<and> exit_code (on_signal sig p) = Some 0)"
proof (intro conjI impI)
  assume nt: "node_env \<noteq> Some ''test''"
  show "economicJob (boot schedule next_fire Connected node_env) = Some (start next_fire (new_job schedule))"
    using nt by (simp add: boot_connected)
  have "times_called Construct (boot schedule next_fire Connected node_env) = 1"
    using nt by (simp add: boot_connected times_called_def)
  then show "times_called Construct (run_process site hs (boot schedule next_fire Connected node_env)) = 1"
    by (simp add: run_process_times)
  have "times_called CallStart (boot schedule next_fire Connected node_env) = 1"
    using nt by (simp add: boot_connected times_called_def)
  then show "times_called CallStart (run_process site hs (boot schedule next_fire Connected node_env)) = 1"
    by (simp add: run_process_times)
next
  show "economicJob (run_process site hs (boot schedule next_fire isConnected (Some ''test''))) = None"
    by (simp add: run_process_no_job boot_test)
  show "times_called Construct (run_process site hs (boot schedule next_fire isConnected (Some ''test''))) = 0"
    by (simp add: run_process_times boot_test)
  show "times_called CallStart (run_process site hs (boot schedule next_fire isConnected (Some ''test''))) = 0"
    by (simp add: run_process_times boot_test)
next
  assume down: "isConnected \<noteq> Connected"
  show "exit_code (boot schedule next_fire isConnected node_env) = Some 1"
    using down by (simp add: boot_not_connected)
  show "economicJob (run_process site hs (boot schedule next_fire isConnected node_env)) = None"
    using down by (simp add: run_process_no_job boot_not_connected)
next
  assume alive: "exit_code p = None"
  show "calls (on_signal sig p)
          = calls p @ (case economicJob p of Some j \<Rightarrow> [CallStop] | None \<Rightarrow> []) @ [Exit 0]"
    using alive by (simp add: on_signal_def process_exit_def split: option.splits)
  show "economicJob (on_signal sig p) = map_option stop (economicJob p)"
    using alive by (simp add: on_signal_def process_exit_def split: option.splits)
  show "exit_code (on_signal sig p) = Some 0"
    using alive by (simp add: on_signal_def process_exit_def split: option.splits)
qed

text \<open>
  A production process that gets SIGTERM, a test process that gets SIGINT, and a
  production process after a tick and SIGINT.
\<close>

theorem job_lifecycle_witness:
  "calls (run_process bare_site [Signal SIGTERM] (boot hourly 60 Connected (Some ''production'')))
     = [Construct, CallStart, Listen, CallStop, Exit 0]
   \<and> calls (run_process bare_site [Signal SIGINT] (boot hourly 60 Connected (Some ''test'')))
     = [Listen, Exit 0]
   \<and> times_called CallStart
        (run_process bare_site [Job (Scheduled 7 fetch_refused), Signal SIGINT]
           (boot hourly 60 Connected (Some ''production''))) = 1"
proof -
  have prod: "Some ''production'' \<noteq> Some ''test''" by simp
  have up: "exit_code (boot hourly 60 Connected (Some ''production'')) = None"
    "exit_code (boot hourly 60 Connected (Some ''test'')) = None"
    by (simp_all add: boot_connected)
  show ?thesis
    using job_lifecycle [of "Some ''production''" hourly 60 bare_site
        "[Job (Scheduled 7 fetch_refused), Signal SIGINT]" Connected
        "boot hourly 60 Connected (Some ''production'')" SIGTERM] prod up
      job_lifecycle [of "Some ''production''" hourly 60 bare_site
        "[]" Connected "boot hourly 60 Connected (Some ''test'')" SIGINT]
    by (simp add: boot_connected)
qed









end
